theory Spec2Isabelle
  imports Main "HOL-Library.Word" "HOL-Library.Sublist"
begin

section \<open>The secio handshake of c-libp2p (src/secio/secio.c)\<close>

text \<open>
  Buffers of the C code (a pointer with its size) are lists of \<^typ>\<open>char\<close>,
  Isabelle's 8-bit character type; \<open>NULL\<close> with size 0 is the empty list where the code
  only reads the buffer under its size. A C string is the part of a buffer before its
  first NUL byte. Where the code dereferences a pointer that is not valid, reads past a
  buffer, or reads memory it has freed, the model returns a \<open>fault\<close>.
\<close>

datatype fault =
    NullPointer         \<comment> \<open>a NULL or uninitialised pointer is dereferenced\<close>
  | NullStream          \<comment> \<open>fread and fclose on the NULL that fopen returned\<close>
  | OutOfBounds         \<comment> \<open>a read or write past the end of a buffer\<close>
  | UseAfterFree        \<comment> \<open>a read of memory that has been freed\<close>

definition NUL :: char where
  "NUL = CHR 0x00"

definition NL :: char where
  "NL = CHR 0x0A"

definition c_str :: "string \<Rightarrow> string" where
  "c_str buf = takeWhile (\<lambda>c. c \<noteq> NUL) buf"

subsection \<open>Plain \<open>char\<close>\<close>

text \<open>
  \<open>libp2p_secio_bytes_compare\<close> takes \<open>const char*\<close> and compares the elements with
  \<open>>\<close>. Plain \<open>char\<close> is modelled as it is on x86 and x86-64 with gcc and clang: a
  signed 8-bit integer, so the byte 0x80 reads as -128.
\<close>

definition schar :: "char \<Rightarrow> int" where
  "schar c = sint (word_of_int (of_char c) :: 8 word)"

definition uchar :: "char \<Rightarrow> int" where
  "uchar c = of_char c"

subsection \<open>\<open>libp2p_secio_bytes_compare\<close> (lines 74-82)\<close>

text \<open>
  The \<open>for\<close> loop, from index \<open>i\<close> on. \<open>len\<close> is the C \<open>int length\<close>; a read at an
  index outside \<open>a\<close> or \<open>b\<close> is a fault.
\<close>

function bytes_compare_from :: "string \<Rightarrow> string \<Rightarrow> int \<Rightarrow> nat \<Rightarrow> fault + int" where
  "bytes_compare_from a b len i =
     (if int i < len then
        (if length a \<le> i \<or> length b \<le> i then Inl OutOfBounds
         else if schar (b ! i) > schar (a ! i) then Inr (- 1)
         else if schar (a ! i) > schar (b ! i) then Inr 1
         else bytes_compare_from a b len (Suc i))
      else Inr 0)"
  by pat_completeness auto
termination
  by (relation "measure (\<lambda>(a, b, len, i). nat (len - int i))") auto

declare bytes_compare_from.simps [simp del]

definition libp2p_secio_bytes_compare :: "string \<Rightarrow> string \<Rightarrow> int \<Rightarrow> fault + int" where
  "libp2p_secio_bytes_compare a b len = bytes_compare_from a b len 0"

text \<open>
  The comparison the specification describes: the first differing position decides, the
  bytes read as unsigned values.
\<close>

fun unsigned_lex_compare :: "string \<Rightarrow> string \<Rightarrow> int" where
  "unsigned_lex_compare (x # xs) (y # ys) =
     (if uchar x < uchar y then - 1 else if uchar y < uchar x then 1
      else unsigned_lex_compare xs ys)"
| "unsigned_lex_compare _ _ = 0"

text \<open>The same comparison with the bytes read as plain \<open>char\<close>, which the loop computes.\<close>

fun signed_lex_compare :: "string \<Rightarrow> string \<Rightarrow> int" where
  "signed_lex_compare (x # xs) (y # ys) =
     (if schar x < schar y then - 1 else if schar y < schar x then 1
      else signed_lex_compare xs ys)"
| "signed_lex_compare _ _ = 0"

subsection \<open>\<open>libp2p_secio_split_list\<close> (lines 84-115)\<close>

text \<open>
  \<open>strtok(s, ",")\<close> on the rest of the string: it skips the commas in front, returns
  \<open>NULL\<close> when nothing is left, and otherwise the token up to the next comma together
  with the rest behind that comma.
\<close>

definition strtok :: "string \<Rightarrow> (string \<times> string) option" where
  "strtok s =
     (let t = dropWhile (\<lambda>c. c = CHR '','') s in
      if t = [] then None
      else Some (takeWhile (\<lambda>c. c \<noteq> CHR '','') t, drop 1 (dropWhile (\<lambda>c. c \<noteq> CHR '','') t)))"

text \<open>The \<open>while (curr_tok != NULL)\<close> loop, which appends one list node per token.\<close>

function split_tokens :: "string \<Rightarrow> string list" where
  "split_tokens s =
     (case strtok s of
        None \<Rightarrow> []
      | Some (tok, rest) \<Rightarrow> tok # split_tokens rest)"
  by pat_completeness auto
termination
proof (relation "measure length")
  fix s :: string and x2 tok rest
  assume a: "strtok s = Some x2" and x2: "(tok, rest) = x2"
  define t where "t = dropWhile (\<lambda>c. c = CHR '','') s"
  from a x2 have ne: "t \<noteq> []" and r: "rest = drop 1 (dropWhile (\<lambda>c. c \<noteq> CHR '','') t)"
    by (auto simp: strtok_def t_def Let_def split: if_splits)
  from ne obtain x xs where t: "t = x # xs" by (cases t) auto
  have "x \<noteq> CHR '',''"
    using t hd_dropWhile [of "\<lambda>c. c = CHR '',''" s] ne by (simp add: t_def)
  then have "length (dropWhile (\<lambda>c. c \<noteq> CHR '','') t) \<le> length xs"
    by (simp add: t length_dropWhile_le)
  then have "length rest < length t"
    by (simp add: r t)
  also have "length t \<le> length s"
    by (simp add: t_def length_dropWhile_le)
  finally show "(rest, s) \<in> measure length" by simp
qed simp

declare split_tokens.simps [simp del]

text \<open>
  The list is copied with a terminating NUL (lines 97-99), so \<open>strtok\<close> sees the C
  string of the buffer. A \<open>StringList\<close> is the list of its \<open>string\<close> fields; an empty
  result is the \<open>NULL\<close> head.
\<close>

definition libp2p_secio_split_list :: "string \<Rightarrow> string list" where
  "libp2p_secio_split_list list = split_tokens (c_str list)"

subsection \<open>\<open>libp2p_secio_select_best\<close> (lines 127-169)\<close>

text \<open>\<open>strcmp\<close> on two NUL-free strings; only the sign of the result is modelled.\<close>

fun strcmp :: "string \<Rightarrow> string \<Rightarrow> int" where
  "strcmp [] [] = 0"
| "strcmp [] (y # ys) = - 1"
| "strcmp (x # xs) [] = 1"
| "strcmp (x # xs) (y # ys) =
     (if x = y then strcmp xs ys else if uchar x < uchar y then - 1 else 1)"

text \<open>The inner loop (lines 154-160): does the lead token match some follower token?\<close>

fun follower_loop :: "string \<Rightarrow> string list \<Rightarrow> bool" where
  "follower_loop lead [] = False"
| "follower_loop lead (f # follower) =
     (if strcmp lead f = 0 then True else follower_loop lead follower)"

text \<open>
  The outer loop (lines 153-165). The result is the node \<open>lead\<close> points to when the
  loop ends with \<open>match = 1\<close>, and \<open>None\<close> when it ends with \<open>match = 0\<close>.
\<close>

fun lead_loop :: "string list \<Rightarrow> string list \<Rightarrow> string option" where
  "lead_loop [] follower_head = None"
| "lead_loop (l # lead) follower_head =
     (if follower_loop l follower_head then Some l else lead_loop lead follower_head)"

text \<open>
  The function returns its \<open>int\<close> together with the content of \<open>*results\<close> afterwards;
  the argument \<open>results\<close> is what \<open>*results\<close> held before the call (\<open>None\<close>: no string).
  With \<open>order == 0\<close> the first node of the local list is dereferenced without a check.
  On the other paths nothing is assigned to \<open>*results\<close>.
\<close>

definition libp2p_secio_select_best ::
  "int \<Rightarrow> string \<Rightarrow> string \<Rightarrow> string option \<Rightarrow> fault + (int \<times> string option)" where
  "libp2p_secio_select_best order local_list remote_list results =
     (let lead_head = libp2p_secio_split_list local_list in
      if order = 0 then
        (case lead_head of
           [] \<Rightarrow> Inl NullPointer
         | s # _ \<Rightarrow> Inr (1, Some s))
      else
        (let (lead_head, follower_head) =
               (if order > 0 then (lead_head, libp2p_secio_split_list remote_list)
                else (libp2p_secio_split_list remote_list, lead_head))
         in case lead_loop lead_head follower_head of
              None \<Rightarrow> Inr (0, results)
            | Some _ \<Rightarrow> Inr (1, results)))"

subsection \<open>\<open>libp2p_secio_generate_nonce\<close> (lines 46-51)\<close>

text \<open>
  \<open>size_t\<close> is 64 bits wide; an \<open>int\<close> converted to it wraps around.
\<close>

definition size_t :: "int \<Rightarrow> nat" where
  "size_t x = nat (x mod 2 ^ 64)"

text \<open>
  \<open>dev\<close> is \<open>/dev/urandom\<close> as the call finds it: \<open>None\<close> when \<open>fopen\<close> returns
  \<open>NULL\<close> (the result is not checked, so \<open>fread\<close> gets the NULL stream), and
  \<open>Some bs\<close> when the stream opens and delivers the bytes \<open>bs\<close> before it ends or
  fails. \<open>fread\<close> stores as many bytes as it gets, up to \<open>length\<close> of them, at the
  front of \<open>results\<close>; its count is not looked at. The function returns its \<open>int\<close>
  with the buffer as it is afterwards.
\<close>

definition libp2p_secio_generate_nonce ::
  "string option \<Rightarrow> string \<Rightarrow> int \<Rightarrow> fault + (int \<times> string)" where
  "libp2p_secio_generate_nonce dev results len =
     (case dev of
        None \<Rightarrow> Inl NullStream
      | Some bs \<Rightarrow>
          (let n = min (size_t len) (length bs) in
           if length results < n then Inl OutOfBounds
           else Inr (1, take n bs @ drop n results)))"

subsection \<open>The data model\<close>

text \<open>
  Modelled from the spec: the headers that declare \<open>struct Propose\<close>, \<open>struct Exchange\<close>,
  \<open>struct PublicKey\<close>, \<open>struct PrivateKey\<close>, \<open>struct RsaPrivateKey\<close> and
  \<open>struct SecureSession\<close> are not among the source files. The records hold the fields
  that secio.c reads and writes, under the names it uses; the specification lists the
  same fields (section 3 and section 6), a key being a type tag with raw bytes. A
  buffer and its size field are one list, except \<open>signature_size\<close>, which
  \<open>libp2p_secio_sign\<close> never sets. Of the key types only \<open>KEYTYPE_RSA\<close> is
  named in secio.c.
\<close>

datatype KeyType = KEYTYPE_RSA | KEYTYPE_OTHER nat

record PublicKey =
  key_type :: KeyType
  data :: string

record PrivateKey =
  priv_key_type :: KeyType
  priv_data :: string

record RsaPrivateKey =
  der :: string

record Propose =
  rand :: string
  public_key :: string
  exchanges :: string
  ciphers :: string
  hashes :: string

record Exchange =
  epubkey :: string
  signature :: "string option"
  signature_size :: nat

record SecureSession =
  socket_descriptor :: int
  nonce :: string
  chosen_curve :: "string option"
  chosen_cipher :: "string option"
  chosen_hash :: "string option"
  ephemeral_public_key :: string

definition SupportedExchanges :: string where
  "SupportedExchanges = ''P-256,P-384,P-521''"

definition SupportedCiphers :: string where
  "SupportedCiphers = ''AES-256,AES-128,Blowfish''"

definition SupportedHashes :: string where
  "SupportedHashes = ''SHA256,SHA512''"

subsection \<open>Hashing, signing and verifying (lines 59-65 and 180-202)\<close>

text \<open>
  The cryptographic primitives are parameters: \<open>sha256\<close> gives the 32 bytes that
  \<open>libp2p_crypto_hashing_sha256\<close> leaves in \<open>result\<close>, \<open>rsa_sign\<close> the return value
  of \<open>libp2p_crypto_rsa_sign\<close> with the bytes it writes, \<open>rsa_verify\<close> the return
  value of \<open>libp2p_crypto_rsa_verify\<close>.
\<close>

definition libp2p_secio_hash :: "(string \<Rightarrow> string) \<Rightarrow> Propose \<Rightarrow> string" where
  "libp2p_secio_hash sha256 p = sha256 (public_key p @ rand p)"

definition libp2p_secio_verify_signature ::
  "(string \<Rightarrow> string \<Rightarrow> string option \<Rightarrow> int) \<Rightarrow> PublicKey \<Rightarrow> string \<Rightarrow> string option \<Rightarrow> int" where
  "libp2p_secio_verify_signature rsa_verify pk buf sig =
     (if key_type pk = KEYTYPE_RSA then rsa_verify (data pk) buf sig else 0)"

text \<open>
  \<open>libp2p_secio_sign\<close> returns its \<open>int\<close> with \<open>*signature\<close> afterwards; \<open>sig\<close> is
  \<open>*signature\<close> before the call. \<open>*signature_size\<close> is not assigned.
\<close>

definition libp2p_secio_sign ::
  "(string \<Rightarrow> string \<Rightarrow> int \<times> string) \<Rightarrow> PrivateKey \<Rightarrow> string \<Rightarrow> string option
     \<Rightarrow> int \<times> string option" where
  "libp2p_secio_sign rsa_sign priv buf sig =
     (if priv_key_type priv = KEYTYPE_RSA then
        (let (r, written) = rsa_sign (priv_data priv) buf in (r, Some written))
      else (0, sig))"

subsection \<open>The functions that are not implemented yet (lines 226-244)\<close>

definition libp2p_secio_stretch_keys :: "SecureSession \<Rightarrow> SecureSession \<Rightarrow> int \<Rightarrow> int" where
  "libp2p_secio_stretch_keys local_session remote_session order_preference = 0"

definition libp2p_secio_make_mac_and_cipher :: "SecureSession \<Rightarrow> int" where
  "libp2p_secio_make_mac_and_cipher s = 0"

definition libp2p_secio_write :: "SecureSession \<Rightarrow> string \<Rightarrow> int" where
  "libp2p_secio_write s bytes = 0"

text \<open>
  \<open>libp2p_secio_read\<close> returns its \<open>int\<close> with \<open>*bytes\<close> and \<open>*bytes_read\<close>
  afterwards: it assigns neither.
\<close>

definition libp2p_secio_read :: "SecureSession \<Rightarrow> string \<Rightarrow> nat \<Rightarrow> int \<times> string \<times> nat" where
  "libp2p_secio_read s bytes bytes_read = (0, bytes, bytes_read)"

subsection \<open>String search on the received buffer\<close>

text \<open>
  \<open>strstr\<close> and \<open>strchr\<close> on a C string: the index of the first occurrence, \<open>None\<close>
  for \<open>NULL\<close>. The received buffer is read as the C string of its bytes: the search
  ends at the first NUL byte, or else at the end of the bytes received.
\<close>

fun strstr :: "string \<Rightarrow> string \<Rightarrow> nat option" where
  "strstr [] needle = (if needle = [] then Some 0 else None)"
| "strstr (h # hay) needle =
     (if prefix needle (h # hay) then Some 0 else map_option Suc (strstr hay needle))"

fun strchr :: "string \<Rightarrow> char \<Rightarrow> nat option" where
  "strchr [] c = None"
| "strchr (h # hay) c = (if h = c then Some 0 else map_option Suc (strchr hay c))"


subsection \<open>\<open>libp2p_secio_handshake\<close> (lines 254-420)\<close>

text \<open>
  What the handshake gets from outside secio.c is a record of parameters, one field for
  each call: the return value of the first \<open>libp2p_net_multistream_send\<close> (that of the second
  is overwritten unread), the return value and the buffer of each
  \<open>libp2p_net_multistream_receive\<close>, the protobuf codecs, the random device, the primitives, and whether the allocations that the code
  checks succeed. \<open>priv_type\<close> is the value found in \<open>priv.type\<close>, which line 361
  declares and nothing assigns. \<open>exchange_new\<close> is the struct that
  \<open>libp2p_secio_exchange_new\<close> hands out.
\<close>

record env =
  multistream_send_protocol :: int
  multistream_receive_propose :: "int \<times> string"
  propose_protobuf_decode :: "string \<Rightarrow> Propose option"
  public_key_protobuf_decode :: "string \<Rightarrow> PublicKey option"
  urandom :: "string option"
  sha256 :: "string \<Rightarrow> string"
  vector_new_sign :: bool
  exchange_new :: Exchange
  priv_type :: KeyType
  rsa_sign :: "string \<Rightarrow> string \<Rightarrow> int \<times> string"
  malloc_exchange_out :: bool
  exchange_protobuf_encode :: "Exchange \<Rightarrow> string"
  multistream_receive_exchange :: "int \<times> string"
  exchange_protobuf_decode :: "string \<Rightarrow> Exchange option"
  vector_new_verify :: bool
  rsa_verify :: "string \<Rightarrow> string \<Rightarrow> string option \<Rightarrow> int"

text \<open>The calls that leave secio.c, in the order they are made, with their arguments.\<close>

datatype event =
    MultistreamSend string
  | MultistreamReceive string
  | EphemeralKeyGenerate "string option"
  | Sign string
  | VerifySignature PublicKey string "string option"

text \<open>Each \<open>goto exit\<close> of the function, by its line, and the end of the function.\<close>

datatype exit_site =
    SendFailed_278
  | NotAccepted_283
  | NoNewline_288
  | ProposeDecodeFailed_293
  | PublicKeyDecodeFailed_302
  | NonceFailed_311
  | VectorNewFailed_352
  | MallocFailed_370
  | VectorNewFailed_385
  | SignatureInvalid_390
  | ReplySize_407
  | ReplyMismatch_409
  | Completed_411


text \<open>
  What a run of the handshake leaves when it returns: the value returned, where it
  left, the session, the calls made, and the buffer \<open>results\<close> (of \<open>results_size\<close>
  bytes) at the end. A run that meets a fault ends there, with the fault and the calls
  made before it.
\<close>

record outcome =
  retVal :: int
  exit_at :: exit_site
  session :: SecureSession
  trace :: "event list"
  results :: string

definition leave ::
  "int \<Rightarrow> exit_site \<Rightarrow> SecureSession \<Rightarrow> event list \<Rightarrow> string \<Rightarrow> (fault \<times> event list) + outcome" where
  "leave r site s tr res =
     Inr \<lparr>retVal = r, exit_at = site, session = s, trace = tr, results = res\<rparr>"

text \<open>The calls of a run, returned or not.\<close>

fun calls :: "(fault \<times> event list) + outcome \<Rightarrow> event list" where
  "calls (Inl (f, tr)) = tr"
| "calls (Inr out) = trace out"

text \<open>
  \<open>propose_out_bytes\<close> and \<open>propose_out_size\<close> (lines 259-260) are initialised to
  \<open>NULL\<close> and 0, and no statement of the function assigns them.
\<close>

definition propose_out_bytes :: string where
  "propose_out_bytes = []"

text \<open>
  Modelled from the spec: \<open>libp2p_utils_vector_add\<close> is not among the source files;
  the transcript is the concatenation of the buffers added (section 4.5).
\<close>

definition libp2p_utils_vector_add :: "string \<Rightarrow> string \<Rightarrow> string" where
  "libp2p_utils_vector_add buffer bytes = buffer @ bytes"

text \<open>
  \<open>propose_in_bytes\<close> points into the buffer \<open>results\<close> (lines 286-289), and line
  296 frees that buffer. Lines 353 and 386 then hand the pointer and
  \<open>propose_in_size\<close> to \<open>libp2p_utils_vector_add\<close>, which reads that many bytes
  through it: with at least one byte to read this is a read of freed memory, a fault;
  with none, nothing is read.
\<close>

definition read_freed :: "string \<Rightarrow> fault + string" where
  "read_freed bytes = (if bytes = [] then Inr [] else Inl UseAfterFree)"

text \<open>
  Lines 393-411: key stretching, MAC and cipher, and the confirmation. \<open>res\<close> is
  \<open>results\<close> as the Exchange receive left it.
\<close>

definition handshake_confirm ::
  "SecureSession \<Rightarrow> SecureSession \<Rightarrow> int \<Rightarrow> string \<Rightarrow> event list
     \<Rightarrow> (fault \<times> event list) + outcome" where
  "handshake_confirm local_session remote_session order res tr =
     (let stretched = libp2p_secio_stretch_keys local_session remote_session order;
          mac_local = libp2p_secio_make_mac_and_cipher local_session;
          mac_remote = libp2p_secio_make_mac_and_cipher remote_session;
          written = libp2p_secio_write local_session (take 16 (nonce local_session));
          (rd, res, results_size) = libp2p_secio_read local_session res (length res)
      in if results_size \<noteq> 16 then leave 0 ReplySize_407 local_session tr res
         else
           (case libp2p_secio_bytes_compare res (nonce local_session) 16 of
              Inl f \<Rightarrow> Inl (f, tr)
            | Inr c \<Rightarrow>
                if c \<noteq> 0 then leave 0 ReplyMismatch_409 local_session tr res
                else leave 1 Completed_411 local_session tr res))"

text \<open>
  Lines 340-391: the Exchange is built, signed and sent, the peer's Exchange is
  received and its signature verified. \<open>results\<close> is \<open>NULL\<close> on entry (line 297),
  and \<open>propose_in_bytes\<close> points into the freed buffer. A failed decode leaves
  \<open>exchange_in\<close> without a valid struct, and line 380 dereferences it.
\<close>

definition handshake_exchange ::
  "env \<Rightarrow> SecureSession \<Rightarrow> RsaPrivateKey \<Rightarrow> PublicKey \<Rightarrow> string \<Rightarrow> int \<Rightarrow> event list
     \<Rightarrow> (fault \<times> event list) + outcome" where
  "handshake_exchange e local_session private_key pubkey propose_in_bytes order tr =
     (let tr = tr @ [EphemeralKeyGenerate (chosen_curve local_session)] in
      if \<not> vector_new_sign e then leave 0 VectorNewFailed_352 local_session tr []
      else
        (case read_freed propose_in_bytes of
           Inl f \<Rightarrow> Inl (f, tr)
         | Inr from_freed \<Rightarrow>
             (let char_buffer = libp2p_utils_vector_add [] from_freed;
                  char_buffer = libp2p_utils_vector_add char_buffer propose_out_bytes;
                  char_buffer = libp2p_utils_vector_add char_buffer
                                  (ephemeral_public_key local_session);
                  exchange_out = (exchange_new e)\<lparr>epubkey := ephemeral_public_key local_session\<rparr>;
                  priv = \<lparr>priv_key_type = priv_type e, priv_data = der private_key\<rparr>;
                  tr = tr @ [Sign char_buffer];
                  (signed, sig) =
                    libp2p_secio_sign (rsa_sign e) priv char_buffer (signature exchange_out);
                  exchange_out = exchange_out\<lparr>signature := sig\<rparr>
              in if \<not> malloc_exchange_out e then leave 0 MallocFailed_370 local_session tr []
                 else
                   (let exchange_out_protobuf = exchange_protobuf_encode e exchange_out;
                        tr = tr @ [MultistreamSend exchange_out_protobuf];
                        (bytes_written, res) = multistream_receive_exchange e;
                        tr = tr @ [MultistreamReceive res]
                    in case exchange_protobuf_decode e res of
                         None \<Rightarrow> Inl (NullPointer, tr)
                       | Some exchange_in \<Rightarrow>
                           (let remote_session =
                                  local_session\<lparr>ephemeral_public_key := epubkey exchange_in\<rparr>
                            in if \<not> vector_new_verify e
                               then leave 0 VectorNewFailed_385 local_session tr res
                               else
                                 (case read_freed propose_in_bytes of
                                    Inl f \<Rightarrow> Inl (f, tr)
                                  | Inr from_freed \<Rightarrow>
                                      (let char_buffer = libp2p_utils_vector_add [] from_freed;
                                           char_buffer =
                                             libp2p_utils_vector_add char_buffer propose_out_bytes;
                                           char_buffer =
                                             libp2p_utils_vector_add char_buffer
                                               (ephemeral_public_key remote_session);
                                           tr = tr @ [VerifySignature pubkey char_buffer
                                                        (signature exchange_in)]
                                       in if libp2p_secio_verify_signature (rsa_verify e) pubkey
                                               char_buffer (signature exchange_in) = 0
                                          then leave 0 SignatureInvalid_390 local_session tr res
                                          else handshake_confirm local_session remote_session
                                                 order res tr)))))))"

text \<open>
  Lines 309-338: the nonce, the local Propose, the order and the three selections,
  whose return values the code drops. The public key put into the local Propose is
  \<open>public_key->data\<close>, the key decoded from the peer's Propose (lines 319-321).
\<close>

definition handshake_negotiate ::
  "env \<Rightarrow> SecureSession \<Rightarrow> RsaPrivateKey \<Rightarrow> Propose \<Rightarrow> PublicKey \<Rightarrow> string \<Rightarrow> event list
     \<Rightarrow> (fault \<times> event list) + outcome" where
  "handshake_negotiate e local_session private_key propose_in pubkey propose_in_bytes tr =
     (case libp2p_secio_generate_nonce (urandom e) (nonce local_session) 16 of
        Inl f \<Rightarrow> Inl (f, tr)
      | Inr (generated, nonce') \<Rightarrow>
          (let local_session = local_session\<lparr>nonce := nonce'\<rparr> in
           if generated = 0 then leave 0 NonceFailed_311 local_session tr []
           else
             (let propose_out = \<lparr>rand = take 16 (nonce local_session), public_key = data pubkey,
                                  exchanges = SupportedExchanges, ciphers = SupportedCiphers,
                                  hashes = SupportedHashes\<rparr>;
                  order_hash_in = libp2p_secio_hash (sha256 e) propose_in;
                  order_hash_out = libp2p_secio_hash (sha256 e) propose_out
              in case libp2p_secio_bytes_compare order_hash_in order_hash_out 32 of
                   Inl f \<Rightarrow> Inl (f, tr)
                 | Inr order \<Rightarrow>
                     (case libp2p_secio_select_best order (exchanges propose_out)
                             (exchanges propose_in) (chosen_curve local_session) of
                        Inl f \<Rightarrow> Inl (f, tr)
                      | Inr (curve_found, curve) \<Rightarrow>
                          (case libp2p_secio_select_best order (ciphers propose_out)
                                  (ciphers propose_in) (chosen_cipher local_session) of
                             Inl f \<Rightarrow> Inl (f, tr)
                           | Inr (cipher_found, cipher) \<Rightarrow>
                               (case libp2p_secio_select_best order (hashes propose_out)
                                       (hashes propose_in) (chosen_hash local_session) of
                                  Inl f \<Rightarrow> Inl (f, tr)
                                | Inr (hash_found, hash) \<Rightarrow>
                                    handshake_exchange e
                                      (local_session\<lparr>chosen_curve := curve, chosen_cipher := cipher,
                                                       chosen_hash := hash\<rparr>)
                                      private_key pubkey propose_in_bytes order tr))))))"

text \<open>
  Lines 274-307. The value a send or receive returns is stored in the \<open>size_t\<close>
  variable \<open>bytes_written\<close> before it is tested. \<open>propose_in_bytes\<close> is the part of
  the buffer behind the first newline; the decoder reads it before line 296 frees the
  buffer, and the pointer and its size are passed on.
\<close>

definition libp2p_secio_handshake ::
  "env \<Rightarrow> SecureSession \<Rightarrow> RsaPrivateKey \<Rightarrow> (fault \<times> event list) + outcome" where
  "libp2p_secio_handshake e local_session private_key =
     (let protocol = ''/secio/1.0.0'' @ [NL];
          tr = [MultistreamSend protocol];
          bytes_written = size_t (multistream_send_protocol e)
      in if bytes_written \<le> 0 then leave 0 SendFailed_278 local_session tr []
         else
           (let (received, res) = multistream_receive_propose e;
                tr = tr @ [MultistreamReceive res];
                bytes_written = size_t received
            in if bytes_written < 1 \<or> strstr (c_str res) ''secio'' = None
               then leave 0 NotAccepted_283 local_session tr res
               else
                 (case strchr (c_str res) NL of
                    None \<Rightarrow> leave 0 NoNewline_288 local_session tr res
                  | Some i \<Rightarrow>
                      (let propose_in_bytes = drop (Suc i) res in
                       case propose_protobuf_decode e propose_in_bytes of
                         None \<Rightarrow> leave 0 ProposeDecodeFailed_293 local_session tr res
                       | Some propose_in \<Rightarrow>
                           (case public_key_protobuf_decode e (public_key propose_in) of
                              None \<Rightarrow> leave 0 PublicKeyDecodeFailed_302 local_session tr []
                            | Some pubkey \<Rightarrow>
                                handshake_negotiate e local_session private_key propose_in pubkey
                                  propose_in_bytes tr)))))"

text \<open>The buffers handed to \<open>libp2p_net_multistream_send\<close>, in order.\<close>

fun sent :: "event list \<Rightarrow> string list" where
  "sent [] = []"
| "sent (MultistreamSend m # tr) = m # sent tr"
| "sent (ev # tr) = sent tr"

subsection \<open>A scripted peer, for concrete runs\<close>

text \<open>
  A stand-in for SHA-256 that is enough to fix an order: the first 32 bytes of the
  input, padded with NUL. The peer answers the protocol line with \<open>response\<close>, which
  decodes to \<open>proposal\<close>; its Exchange message is the buffer \<open>reply\<close>; \<open>verified\<close>
  is what the RSA verification returns. The device delivers the nonce
  \<open>0123456789abcdef\<close>.
\<close>

definition toy_sha256 :: "string \<Rightarrow> string" where
  "toy_sha256 bs = take 32 (bs @ replicate 32 NUL)"

definition peer_env :: "string \<Rightarrow> Propose \<Rightarrow> string \<Rightarrow> int \<Rightarrow> env" where
  "peer_env response proposal reply verified =
     \<lparr>multistream_send_protocol = 13,
      multistream_receive_propose = (int (length response), response),
      propose_protobuf_decode = (\<lambda>bs. Some proposal),
      public_key_protobuf_decode = (\<lambda>bs. Some \<lparr>key_type = KEYTYPE_RSA, data = ''KEY''\<rparr>),
      urandom = Some ''0123456789abcdef'',
      sha256 = toy_sha256,
      vector_new_sign = True,
      exchange_new = \<lparr>epubkey = [], signature = None, signature_size = 0\<rparr>,
      priv_type = KEYTYPE_RSA,
      rsa_sign = (\<lambda>key bs. (1, ''SIGNATURE'')),
      malloc_exchange_out = True,
      exchange_protobuf_encode = (\<lambda>x. ''EXCHANGE:'' @ epubkey x),
      multistream_receive_exchange = (int (length reply), reply),
      exchange_protobuf_decode =
        (\<lambda>bs. Some \<lparr>epubkey = ''PEER-EPUB'', signature = Some ''PEER-SIG'', signature_size = 8\<rparr>),
      vector_new_verify = True,
      rsa_verify = (\<lambda>key bs sig. verified)\<rparr>"

definition session0 :: SecureSession where
  "session0 = \<lparr>socket_descriptor = 3, nonce = replicate 16 NUL, chosen_curve = None,
      chosen_cipher = None, chosen_hash = None, ephemeral_public_key = ''EPUB''\<rparr>"

definition key0 :: RsaPrivateKey where
  "key0 = \<lparr>der = ''DER''\<rparr>"

text \<open>
  Four responses: the protocol line followed by Propose bytes; the protocol line alone,
  that is with an empty Propose behind the newline; and two that do not name the
  protocol in their first line, one without \<open>secio\<close> anywhere, one with \<open>secio\<close>
  behind the newline.
\<close>

definition accept_response :: string where
  "accept_response = ''/secio/1.0.0'' @ [NL] @ ''PROPOSE''"

definition bare_response :: string where
  "bare_response = ''/secio/1.0.0'' @ [NL]"

definition plain_response :: string where
  "plain_response = ''/plain/1.0.0'' @ [NL] @ ''PROPOSE''"

definition late_response :: string where
  "late_response = ''/plain/1.0.0'' @ [NL] @ ''secio'' @ [NUL]"

text \<open>
  A peer whose three lists share no token with the local catalogs, one whose lists do,
  and the Propose with every field empty, which is what zero bytes decode to.
\<close>

definition foreign_proposal :: Propose where
  "foreign_proposal = \<lparr>rand = ''fedcba9876543210'', public_key = ''PUBKEY'',
      exchanges = ''X25519'', ciphers = ''ChaCha20'', hashes = ''BLAKE2''\<rparr>"

definition common_proposal :: Propose where
  "common_proposal = \<lparr>rand = ''fedcba9876543210'', public_key = ''PUBKEY'',
      exchanges = ''P-384,P-256'', ciphers = ''AES-128'', hashes = ''SHA512,SHA256''\<rparr>"

definition empty_proposal :: Propose where
  "empty_proposal = \<lparr>rand = [], public_key = [], exchanges = [], ciphers = [], hashes = []\<rparr>"


section \<open>Properties\<close>

subsection \<open>Comparison of bytes\<close>

lemma schar_inj: "schar x = schar y \<Longrightarrow> x = y"
proof -
  assume "schar x = schar y"
  then have "(word_of_int (of_char x) :: 8 word) = word_of_int (of_char y)"
    unfolding schar_def by (rule signed_word_eqI)
  then have "take_bit 8 (of_char x :: int) = take_bit 8 (of_char y :: int)"
    by (simp add: word_of_int_eq_iff)
  then show "x = y"
    by (simp add: take_bit_eq_mod)
qed

lemma bytes_compare_from_swap:
  "bytes_compare_from a b len i = Inr 1 \<Longrightarrow> bytes_compare_from b a len i = Inr (- 1)"
proof (induction a b len i rule: bytes_compare_from.induct)
  case (1 a b len i)
  show ?case
  proof (cases "int i < len")
    case False
    with "1.prems" show ?thesis by (simp add: bytes_compare_from.simps [of a b len i])
  next
    case True
    note lt = this
    from "1.prems" lt have inb: "\<not> (length a \<le> i \<or> length b \<le> i)"
      by (auto simp: bytes_compare_from.simps [of a b len i] split: if_splits)
    from "1.prems" lt inb have nlt: "\<not> schar (a ! i) < schar (b ! i)"
      by (auto simp: bytes_compare_from.simps [of a b len i] split: if_splits)
    show ?thesis
    proof (cases "schar (b ! i) < schar (a ! i)")
      case True
      with lt inb show ?thesis
        by (simp add: bytes_compare_from.simps [of b a len i])
    next
      case False
      with "1.prems" lt inb nlt have "bytes_compare_from a b len (Suc i) = Inr 1"
        by (simp add: bytes_compare_from.simps [of a b len i])
      with "1.IH" lt inb nlt False have "bytes_compare_from b a len (Suc i) = Inr (- 1)"
        by simp
      with lt inb nlt False show ?thesis
        by (simp add: bytes_compare_from.simps [of b a len i])
    qed
  qed
qed

lemma bytes_compare_from_same:
  "b = a \<Longrightarrow> len \<le> int (length a) \<Longrightarrow> bytes_compare_from a b len i = Inr 0"
proof (induction a b len i rule: bytes_compare_from.induct)
  case (1 a b len i)
  then show ?case
    by (cases "int i < len") (simp_all add: bytes_compare_from.simps [of a a len i])
qed

lemma bytes_compare_from_inbounds:
  "len \<le> int (length a) \<Longrightarrow> len \<le> int (length b) \<Longrightarrow> \<exists>c. bytes_compare_from a b len i = Inr c"
proof (induction a b len i rule: bytes_compare_from.induct)
  case (1 a b len i)
  then show ?case
    by (cases "int i < len") (auto simp: bytes_compare_from.simps [of a b len i])
qed

lemma bytes_compare_from_zero:
  "bytes_compare_from a b len i = Inr 0 \<Longrightarrow> i \<le> j \<Longrightarrow> int j < len \<Longrightarrow>
     j < length a \<and> j < length b \<and> a ! j = b ! j"
proof (induction a b len i rule: bytes_compare_from.induct)
  case (1 a b len i)
  from "1.prems" have lt: "int i < len" by simp
  from "1.prems"(1) lt have inb: "\<not> (length a \<le> i \<or> length b \<le> i)"
    by (auto simp: bytes_compare_from.simps [of a b len i] split: if_splits)
  from "1.prems"(1) lt inb have eq: "schar (a ! i) = schar (b ! i)"
    and nlt: "\<not> schar (a ! i) < schar (b ! i)" "\<not> schar (b ! i) < schar (a ! i)"
    and rest: "bytes_compare_from a b len (Suc i) = Inr 0"
    by (auto simp: bytes_compare_from.simps [of a b len i] split: if_splits)
  show ?case
  proof (cases "j = i")
    case True
    with inb eq show ?thesis by (auto dest: schar_inj)
  next
    case False
    with "1.prems" have "Suc i \<le> j" by simp
    with "1.IH" lt inb nlt rest "1.prems"(3) show ?thesis by simp
  qed
qed

lemma bytes_compare_zero_eq:
  assumes "libp2p_secio_bytes_compare a b (int n) = Inr 0" "length a = n"
  shows "a = take n b"
proof (rule nth_equalityI)
  from assms show "length a = length (take n b)"
    using bytes_compare_from_zero [of a b "int n" 0 "n - 1"]
    by (cases n) (auto simp: libp2p_secio_bytes_compare_def)
  fix j assume "j < length a"
  with assms show "a ! j = take n b ! j"
    using bytes_compare_from_zero [of a b "int n" 0 j]
    by (auto simp: libp2p_secio_bytes_compare_def)
qed

text \<open>
  Over arrays of the given length the function is the lexicographic comparison of the
  bytes as plain \<open>char\<close>: the first differing position decides.
\<close>

lemma bytes_compare_from_signed_lex:
  "length a = length b \<Longrightarrow> len = int (length a) \<Longrightarrow>
     bytes_compare_from a b len i = Inr (signed_lex_compare (drop i a) (drop i b))"
proof (induction a b len i rule: bytes_compare_from.induct)
  case (1 a b len i)
  show ?case
  proof (cases "int i < len")
    case False
    then have "bytes_compare_from a b len i = Inr 0"
      by (simp add: bytes_compare_from.simps [of a b len i])
    moreover from False "1.prems" have "drop i a = []" by simp
    ultimately show ?thesis by simp
  next
    case True
    with "1.prems" have ia: "i < length a" and ib: "i < length b" by simp_all
    then have d: "drop i a = a ! i # drop (Suc i) a" "drop i b = b ! i # drop (Suc i) b"
      by (simp_all add: Cons_nth_drop_Suc)
    have step: "bytes_compare_from a b len i =
        (if schar (a ! i) < schar (b ! i) then Inr (- 1)
         else if schar (b ! i) < schar (a ! i) then Inr 1
         else bytes_compare_from a b len (Suc i))"
      using True ia ib by (simp add: bytes_compare_from.simps [of a b len i])
    show ?thesis
    proof (cases "schar (a ! i) < schar (b ! i) \<or> schar (b ! i) < schar (a ! i)")
      case True
      then show ?thesis by (auto simp: step d)
    next
      case False
      with "1.IH" \<open>int i < len\<close> ia ib "1.prems"
      have "bytes_compare_from a b len (Suc i) =
          Inr (signed_lex_compare (drop (Suc i) a) (drop (Suc i) b))"
        by simp
      with False show ?thesis by (simp add: step d)
    qed
  qed
qed

lemma bytes_compare_signed_lex:
  "length a = length b \<Longrightarrow>
     libp2p_secio_bytes_compare a b (int (length a)) = Inr (signed_lex_compare a b)"
  using bytes_compare_from_signed_lex [of a b "int (length a)" 0]
  by (simp add: libp2p_secio_bytes_compare_def)

text \<open>
  C7 (the code departs from the claim). The claim: for 32-byte hashes the comparison is
  by unsigned bytes, +1 when the first differing byte of \<open>a\<close> is the larger one. At
  \<open>a\<close> = 0x80 followed by 31 zero bytes and \<open>b\<close> = 0x01 followed by 31 zero bytes the
  unsigned comparison gives +1, and the function returns -1: it compares plain
  \<open>char\<close>, and 0x80 is -128 there.
\<close>

theorem bytes_compare_signed_at_0x80:
  "libp2p_secio_bytes_compare (CHR 0x80 # replicate 31 NUL) (CHR 0x01 # replicate 31 NUL) 32
     = Inr (- 1) \<and>
   unsigned_lex_compare (CHR 0x80 # replicate 31 NUL) (CHR 0x01 # replicate 31 NUL) = 1"
  by (simp add: libp2p_secio_bytes_compare_def bytes_compare_from.simps [of _ _ _ 0]
      schar_def uchar_def)

text \<open>
  C8. For byte arrays \<open>a\<close> and \<open>b\<close> of the same length, compared over that length:
  if \<open>compare(a, b)\<close> is +1 then \<open>compare(b, a)\<close> is -1, and \<open>compare(a, a)\<close> is 0.
\<close>

theorem bytes_compare_antisymmetric:
  assumes "length a = length b" and "len = int (length a)"
  shows "(libp2p_secio_bytes_compare a b len = Inr 1 \<longrightarrow>
            libp2p_secio_bytes_compare b a len = Inr (- 1)) \<and>
         libp2p_secio_bytes_compare a a len = Inr 0"
  using assms
  by (simp add: libp2p_secio_bytes_compare_def bytes_compare_from_swap bytes_compare_from_same)

theorem bytes_compare_antisymmetric_witness:
  "length ''ab'' = length ''aa'' \<and>
   libp2p_secio_bytes_compare ''ab'' ''aa'' 2 = Inr 1 \<and>
   libp2p_secio_bytes_compare ''aa'' ''ab'' 2 = Inr (- 1) \<and>
   libp2p_secio_bytes_compare ''ab'' ''ab'' 2 = Inr 0"
proof -
  have fwd: "libp2p_secio_bytes_compare ''ab'' ''aa'' 2 = Inr 1"
    by (simp add: libp2p_secio_bytes_compare_def bytes_compare_from.simps schar_def)
  from bytes_compare_antisymmetric [of "''ab''" "''aa''" 2] fwd show ?thesis
    by simp
qed

subsection \<open>Selection\<close>

lemma strcmp_eq: "strcmp a b = 0 \<longleftrightarrow> a = b"
  by (induction a b rule: strcmp.induct) auto

lemma follower_loop_iff: "follower_loop l fs \<longleftrightarrow> l \<in> set fs"
  by (induction fs) (auto simp: strcmp_eq)

lemma lead_loop_find: "lead_loop ls fs = find (\<lambda>l. l \<in> set fs) ls"
  by (induction ls) (auto simp: follower_loop_iff)

lemma lead_loop_None: "lead_loop ls fs = None \<longleftrightarrow> set ls \<inter> set fs = {}"
  by (auto simp: lead_loop_find find_None_iff)

lemma split_list_first:
  "libp2p_secio_split_list list = tok # rest \<Longrightarrow>
     tok = takeWhile (\<lambda>c. c \<noteq> CHR '','') (dropWhile (\<lambda>c. c = CHR '','') (c_str list))"
  by (auto simp: libp2p_secio_split_list_def split_tokens.simps [of "c_str list"] strtok_def Let_def
      split: option.splits if_splits)

lemmas split_eval = libp2p_secio_split_list_def c_str_def NUL_def split_tokens.simps strtok_def

lemmas select_eval = libp2p_secio_select_best_def split_eval Let_def

text \<open>
  C9. With \<open>order == 0\<close> and a local list that has a first token, the function returns
  1 and stores that first token (the text before the first comma, commas in front
  skipped) in \<open>*results\<close>; the outcome is the same for every remote list.
\<close>

theorem select_best_order_zero:
  assumes "libp2p_secio_split_list local_list = tok # rest"
  shows "libp2p_secio_select_best 0 local_list remote_list old_results = Inr (1, Some tok) \<and>
     tok = takeWhile (\<lambda>c. c \<noteq> CHR '','') (dropWhile (\<lambda>c. c = CHR '','') (c_str local_list)) \<and>
     libp2p_secio_select_best 0 local_list remote_list' old_results' =
       libp2p_secio_select_best 0 local_list remote_list old_results"
  using assms split_list_first [OF assms]
  by (simp add: libp2p_secio_select_best_def)

theorem select_best_order_zero_witness:
  "libp2p_secio_split_list SupportedExchanges = ''P-256'' # [''P-384'', ''P-521''] \<and>
   libp2p_secio_select_best 0 SupportedExchanges ''X25519'' None = Inr (1, Some ''P-256'') \<and>
   libp2p_secio_select_best 0 SupportedExchanges ''P-521,P-384'' (Some ''old'') =
     Inr (1, Some ''P-256'')"
proof -
  have sp: "libp2p_secio_split_list SupportedExchanges = ''P-256'' # [''P-384'', ''P-521'']"
    by (simp add: SupportedExchanges_def split_eval)
  from select_best_order_zero [OF sp, of "''X25519''" None]
    select_best_order_zero [OF sp, of "''P-521,P-384''" "Some ''old''"] sp
  show ?thesis by simp
qed

text \<open>
  A search (\<open>order\<close> other than 0) assigns nothing to \<open>*results\<close>, whatever it
  finds, and returns 1 exactly when the two lists share a token.
\<close>

lemma select_best_search:
  assumes "order \<noteq> 0"
  shows "libp2p_secio_select_best order local_list remote_list old_results =
     Inr (if set (libp2p_secio_split_list local_list)
               \<inter> set (libp2p_secio_split_list remote_list) = {} then 0 else 1,
          old_results)"
proof -
  let ?L = "libp2p_secio_split_list local_list" and ?R = "libp2p_secio_split_list remote_list"
  have "lead_loop ?L ?R = None \<longleftrightarrow> set ?L \<inter> set ?R = {}"
    "lead_loop ?R ?L = None \<longleftrightarrow> set ?L \<inter> set ?R = {}"
    by (auto simp: lead_loop_None)
  with assms show ?thesis
    by (cases "0 < order")
      (auto simp: libp2p_secio_select_best_def Let_def split: option.splits)
qed

text \<open>
  C1 (the code departs from the claim). The claim: for lists that share a token the
  function succeeds and stores in \<open>*results\<close> the first lead token that has a match;
  with the lead list \<open>P-256,P-384\<close> and the follower list \<open>P-384,P-256\<close> the stored
  result is \<open>P-256\<close>. On that input, with the local list leading (\<open>order = 1\<close>) and
  with the remote list leading (\<open>order = -1\<close>), the function returns 1 and
  \<open>*results\<close> is what it was before the call: nothing is stored.
\<close>

theorem select_best_stores_nothing:
  "libp2p_secio_select_best 1 ''P-256,P-384'' ''P-384,P-256'' None = Inr (1, None) \<and>
   libp2p_secio_select_best 1 ''P-256,P-384'' ''P-384,P-256'' (Some ''old'') = Inr (1, Some ''old'') \<and>
   libp2p_secio_select_best (- 1) ''P-384,P-256'' ''P-256,P-384'' None = Inr (1, None)"
  by (simp add: select_eval)

subsection \<open>The nonce\<close>

lemma generate_nonce_one:
  "libp2p_secio_generate_nonce dev buf len = Inr (r, buf') \<Longrightarrow> r = 1 \<and> length buf' = length buf"
  by (auto simp: libp2p_secio_generate_nonce_def Let_def split: option.splits if_splits)

subsection \<open>The handshake, stage by stage\<close>

lemma read_freed_Inr: "read_freed bytes = Inr x \<longleftrightarrow> bytes = [] \<and> x = []"
  by (auto simp: read_freed_def)

lemma confirm_ok:
  assumes "handshake_confirm s rs order res tr = Inr out"
  shows "session out = s \<and> (retVal out = 0 \<or> retVal out = 1) \<and> results out = res \<and>
     exit_at out \<noteq> NonceFailed_311 \<and>
     (retVal out = 1 \<longrightarrow> exit_at out = Completed_411 \<and> length res = 16 \<and> res = take 16 (nonce s))"
  using assms bytes_compare_zero_eq [of res "nonce s" 16]
  by (auto simp: handshake_confirm_def libp2p_secio_read_def leave_def Let_def
      split: sum.splits if_splits)

lemma confirm_calls: "calls (handshake_confirm s rs order res tr) = tr"
  by (auto simp: handshake_confirm_def libp2p_secio_read_def leave_def Let_def
      split: sum.splits if_splits)

lemma exchange_ok:
  assumes "handshake_exchange e s pk pubkey pib order tr = Inr out"
  shows "session out = s \<and> (retVal out = 0 \<or> retVal out = 1) \<and> exit_at out \<noteq> NonceFailed_311 \<and>
     (retVal out = 1 \<longrightarrow> exit_at out = Completed_411 \<and> length (results out) = 16 \<and>
        results out = take 16 (nonce s) \<and> results out = snd (multistream_receive_exchange e))"
  using assms
  by (auto simp: handshake_exchange_def leave_def Let_def
      split: sum.splits if_splits option.splits prod.splits dest!: confirm_ok)

lemma negotiate_ok:
  assumes "handshake_negotiate e s pk pin pubkey pib tr = Inr out"
  shows "(retVal out = 0 \<or> retVal out = 1) \<and> exit_at out \<noteq> NonceFailed_311 \<and>
     length (nonce (session out)) = length (nonce s) \<and>
     (retVal out = 1 \<longrightarrow> exit_at out = Completed_411 \<and> length (results out) = 16 \<and>
        results out = take 16 (nonce (session out)) \<and>
        results out = snd (multistream_receive_exchange e))"
  using assms
  by (auto simp: handshake_negotiate_def leave_def Let_def
      split: sum.splits if_splits option.splits prod.splits
      dest!: exchange_ok generate_nonce_one)

text \<open>
  A run that returns 1 has tested the buffer that the Exchange receive of line 376
  delivered: that buffer is 16 bytes long and equal to the local nonce.
\<close>

lemma handshake_ok:
  assumes "libp2p_secio_handshake e s pk = Inr out"
  shows "(retVal out = 0 \<or> retVal out = 1) \<and> exit_at out \<noteq> NonceFailed_311 \<and>
     length (nonce (session out)) = length (nonce s) \<and>
     (retVal out = 1 \<longrightarrow> exit_at out = Completed_411 \<and> length (results out) = 16 \<and>
        results out = take 16 (nonce (session out)) \<and>
        results out = snd (multistream_receive_exchange e))"
  using assms
  by (auto simp: libp2p_secio_handshake_def leave_def Let_def
      split: sum.splits if_splits option.splits prod.splits
      dest!: negotiate_ok)

text \<open>
  Whatever the peer does, nothing but the protocol line and one Exchange is sent, in
  runs that return and in runs that end in a fault.
\<close>

lemma sent_append: "sent (xs @ ys) = sent xs @ sent ys"
  by (induction xs rule: sent.induct) auto

lemma exchange_sent:
  "sent (calls (handshake_exchange e s pk pubkey pib order tr)) = sent tr \<or>
   (\<exists>x. sent (calls (handshake_exchange e s pk pubkey pib order tr))
      = sent tr @ [exchange_protobuf_encode e x])"
  by (auto simp: handshake_exchange_def leave_def Let_def sent_append confirm_calls
      split: sum.splits if_splits option.splits prod.splits)

lemma negotiate_sent:
  "sent (calls (handshake_negotiate e s pk pin pubkey pib tr)) = sent tr \<or>
   (\<exists>x. sent (calls (handshake_negotiate e s pk pin pubkey pib tr))
      = sent tr @ [exchange_protobuf_encode e x])"
  using exchange_sent
  by (auto simp: handshake_negotiate_def leave_def Let_def
      split: sum.splits if_splits option.splits prod.splits)

lemma handshake_sent:
  "sent (calls (libp2p_secio_handshake e s pk)) = [''/secio/1.0.0'' @ [NL]] \<or>
   (\<exists>x. sent (calls (libp2p_secio_handshake e s pk))
      = [''/secio/1.0.0'' @ [NL], exchange_protobuf_encode e x])"
proof -
  have *: "sent (calls (handshake_negotiate e s pk pin pubkey pib
        [MultistreamSend (''/secio/1.0.0'' @ [NL]), MultistreamReceive r])) = [''/secio/1.0.0'' @ [NL]] \<or>
     (\<exists>x. sent (calls (handshake_negotiate e s pk pin pubkey pib
        [MultistreamSend (''/secio/1.0.0'' @ [NL]), MultistreamReceive r]))
        = [''/secio/1.0.0'' @ [NL], exchange_protobuf_encode e x])" for pin pubkey pib r
    using negotiate_sent [of e s pk pin pubkey pib
        "[MultistreamSend (''/secio/1.0.0'' @ [NL]), MultistreamReceive r]"]
    by simp
  show ?thesis
    using *
    by (auto simp: libp2p_secio_handshake_def leave_def Let_def
        split: sum.splits if_splits option.splits prod.splits)
qed

text \<open>
  A buffer is verified only in runs where no Propose byte was behind the newline, and
  it is then the peer's ephemeral public key and nothing else.
\<close>

lemma exchange_verified_buffer:
  assumes "VerifySignature k buf sg \<in> set (calls (handshake_exchange e s pk pubkey pib order tr))"
    and "\<forall>k b g. VerifySignature k b g \<notin> set tr"
  shows "pib = [] \<and> (\<exists>ex. exchange_protobuf_decode e (snd (multistream_receive_exchange e)) = Some ex \<and>
     k = pubkey \<and> buf = epubkey ex \<and> sg = signature ex)"
  using assms
  by (auto simp: handshake_exchange_def leave_def Let_def libp2p_utils_vector_add_def
      propose_out_bytes_def confirm_calls read_freed_def
      split: sum.splits if_splits option.splits prod.splits)

lemma negotiate_verified_buffer:
  assumes "VerifySignature k buf sg \<in> set (calls (handshake_negotiate e s pk pin pubkey pib tr))"
    and "\<forall>k b g. VerifySignature k b g \<notin> set tr"
  shows "pib = [] \<and> (\<exists>ex. exchange_protobuf_decode e (snd (multistream_receive_exchange e)) = Some ex \<and>
     k = pubkey \<and> buf = epubkey ex \<and> sg = signature ex)"
  using assms
  by (auto simp: handshake_negotiate_def leave_def Let_def
      split: sum.splits if_splits option.splits prod.splits
      dest: exchange_verified_buffer)

lemma handshake_verified_buffer:
  assumes "VerifySignature k buf sg \<in> set (calls (libp2p_secio_handshake e s pk))"
  shows "\<exists>ex. exchange_protobuf_decode e (snd (multistream_receive_exchange e)) = Some ex \<and>
     buf = epubkey ex \<and> sg = signature ex"
  using assms
  by (auto simp: libp2p_secio_handshake_def leave_def Let_def
      split: sum.splits if_splits option.splits prod.splits
      dest!: negotiate_verified_buffer)

subsection \<open>Concrete runs\<close>

lemmas run_eval = libp2p_secio_handshake_def handshake_negotiate_def handshake_exchange_def
  handshake_confirm_def peer_env_def session0_def key0_def accept_response_def
  bare_response_def plain_response_def late_response_def read_freed_def
  foreign_proposal_def common_proposal_def empty_proposal_def toy_sha256_def leave_def size_t_def
  libp2p_secio_generate_nonce_def libp2p_secio_hash_def libp2p_secio_bytes_compare_def
  select_eval NL_def SupportedExchanges_def SupportedCiphers_def SupportedHashes_def
  libp2p_utils_vector_add_def propose_out_bytes_def libp2p_secio_sign_def
  libp2p_secio_verify_signature_def libp2p_secio_stretch_keys_def
  libp2p_secio_make_mac_and_cipher_def libp2p_secio_write_def libp2p_secio_read_def
  bytes_compare_from.simps schar_def

text \<open>
  The peer accepts and sends Propose bytes, whose lists share no token with the local
  ones. The run gets as far as line 353, where the freed Propose bytes are read.
\<close>

lemma run_foreign:
  "libp2p_secio_handshake (peer_env accept_response foreign_proposal ''0123456789abcdef'' 1)
     session0 key0 =
   Inl (UseAfterFree,
        [MultistreamSend (''/secio/1.0.0'' @ [NL]),
         MultistreamReceive accept_response,
         EphemeralKeyGenerate None])"
  by (simp add: run_eval)

text \<open>The same with lists that share tokens with the local ones.\<close>

lemma run_common:
  "libp2p_secio_handshake (peer_env accept_response common_proposal ''0123456789abcdef'' 1)
     session0 key0 =
   Inl (UseAfterFree,
        [MultistreamSend (''/secio/1.0.0'' @ [NL]),
         MultistreamReceive accept_response,
         EphemeralKeyGenerate None])"
  by (simp add: run_eval)

text \<open>
  The peer answers with the protocol line alone: the Propose behind the newline has
  zero bytes, so nothing is read from the freed buffer. The peer's signature is
  verified and its Exchange message is the 16 bytes of the local nonce.
\<close>

lemma run_bare:
  "libp2p_secio_handshake (peer_env bare_response empty_proposal ''0123456789abcdef'' 1)
     session0 key0 =
   Inr \<lparr>retVal = 1, exit_at = Completed_411,
        session = session0\<lparr>nonce := ''0123456789abcdef''\<rparr>,
        trace = [MultistreamSend (''/secio/1.0.0'' @ [NL]),
                 MultistreamReceive bare_response,
                 EphemeralKeyGenerate None,
                 Sign ''EPUB'',
                 MultistreamSend ''EXCHANGE:EPUB'',
                 MultistreamReceive ''0123456789abcdef'',
                 VerifySignature \<lparr>key_type = KEYTYPE_RSA, data = ''KEY''\<rparr>
                   ''PEER-EPUB'' (Some ''PEER-SIG'')],
        results = ''0123456789abcdef''\<rparr>"
  by (simp add: run_eval)



subsection \<open>The handshake\<close>

text \<open>
  C2 (the code departs from the claim). The claim: when the lists of the two proposals
  share no token the selection returns 0 and the handshake then returns failure without
  going on to the ephemeral exchange. With the peer whose lists are foreign to the
  local catalogs the order is 1 and each of the three selections returns 0, as claimed;
  the handshake drops these values and goes on: it has the ephemeral key generated
  (line 348) and reaches line 353. With the peer whose Propose is empty the order is
  -1, the selection returns 0 again, and the handshake goes through to the end and
  returns 1.
\<close>

theorem handshake_ignores_selection:
  "set (libp2p_secio_split_list SupportedExchanges)
     \<inter> set (libp2p_secio_split_list (exchanges foreign_proposal)) = {} \<and>
   libp2p_secio_bytes_compare
     (libp2p_secio_hash toy_sha256 foreign_proposal)
     (libp2p_secio_hash toy_sha256
        \<lparr>rand = ''0123456789abcdef'', public_key = ''KEY'', exchanges = SupportedExchanges,
         ciphers = SupportedCiphers, hashes = SupportedHashes\<rparr>) 32 = Inr 1 \<and>
   libp2p_secio_select_best 1 SupportedExchanges (exchanges foreign_proposal) None = Inr (0, None) \<and>
   libp2p_secio_select_best 1 SupportedCiphers (ciphers foreign_proposal) None = Inr (0, None) \<and>
   libp2p_secio_select_best 1 SupportedHashes (hashes foreign_proposal) None = Inr (0, None) \<and>
   libp2p_secio_handshake (peer_env accept_response foreign_proposal ''0123456789abcdef'' 1)
     session0 key0 =
   Inl (UseAfterFree,
        [MultistreamSend (''/secio/1.0.0'' @ [NL]),
         MultistreamReceive accept_response,
         EphemeralKeyGenerate None]) \<and>
   libp2p_secio_bytes_compare
     (libp2p_secio_hash toy_sha256 empty_proposal)
     (libp2p_secio_hash toy_sha256
        \<lparr>rand = ''0123456789abcdef'', public_key = ''KEY'', exchanges = SupportedExchanges,
         ciphers = SupportedCiphers, hashes = SupportedHashes\<rparr>) 32 = Inr (- 1) \<and>
   libp2p_secio_select_best (- 1) SupportedExchanges (exchanges empty_proposal) None = Inr (0, None) \<and>
   map_sum id (\<lambda>out. (retVal out, exit_at out, sent (trace out)))
     (libp2p_secio_handshake (peer_env bare_response empty_proposal ''0123456789abcdef'' 1)
        session0 key0) =
   Inr (1, Completed_411, [''/secio/1.0.0'' @ [NL], ''EXCHANGE:EPUB''])"
proof -
  have "libp2p_secio_bytes_compare
     (libp2p_secio_hash toy_sha256 foreign_proposal)
     (libp2p_secio_hash toy_sha256
        \<lparr>rand = ''0123456789abcdef'', public_key = ''KEY'', exchanges = SupportedExchanges,
         ciphers = SupportedCiphers, hashes = SupportedHashes\<rparr>) 32 = Inr 1"
    "libp2p_secio_bytes_compare
     (libp2p_secio_hash toy_sha256 empty_proposal)
     (libp2p_secio_hash toy_sha256
        \<lparr>rand = ''0123456789abcdef'', public_key = ''KEY'', exchanges = SupportedExchanges,
         ciphers = SupportedCiphers, hashes = SupportedHashes\<rparr>) 32 = Inr (- 1)"
    by (simp_all add: libp2p_secio_bytes_compare_def bytes_compare_from.simps [of _ _ _ 0]
        libp2p_secio_hash_def toy_sha256_def foreign_proposal_def empty_proposal_def
        schar_def NUL_def)
  moreover have
    "set (libp2p_secio_split_list SupportedExchanges)
      \<inter> set (libp2p_secio_split_list (exchanges foreign_proposal)) = {}"
    "libp2p_secio_select_best 1 SupportedExchanges (exchanges foreign_proposal) None = Inr (0, None)"
    "libp2p_secio_select_best 1 SupportedCiphers (ciphers foreign_proposal) None = Inr (0, None)"
    "libp2p_secio_select_best 1 SupportedHashes (hashes foreign_proposal) None = Inr (0, None)"
    "libp2p_secio_select_best (- 1) SupportedExchanges (exchanges empty_proposal) None = Inr (0, None)"
    by (simp_all add: select_eval SupportedExchanges_def SupportedCiphers_def SupportedHashes_def
        foreign_proposal_def empty_proposal_def)
  ultimately show ?thesis
    by (simp add: run_foreign run_bare)
qed

text \<open>
  C3 (the code departs from the claim). The claim: the signature is verified over the
  local Propose bytes, the remote Propose bytes and the peer's ephemeral public key.
  When the peer has sent Propose bytes, the run ends at line 353 in the read of the
  freed buffer that held them, before anything is verified. In the run that does
  verify, the local Propose carries the nonce \<open>0123456789abcdef\<close> and the buffer
  verified is the peer's ephemeral public key \<open>PEER-EPUB\<close> alone: no byte of the
  local Propose is in it, since \<open>propose_out_bytes\<close> is never filled.
\<close>

theorem handshake_verifies_key_only:
  "libp2p_secio_handshake (peer_env accept_response common_proposal ''0123456789abcdef'' 1)
     session0 key0 =
   Inl (UseAfterFree,
        [MultistreamSend (''/secio/1.0.0'' @ [NL]),
         MultistreamReceive accept_response,
         EphemeralKeyGenerate None]) \<and>
   map_sum id (\<lambda>out. (retVal out, last (trace out), nonce (session out)))
     (libp2p_secio_handshake (peer_env bare_response empty_proposal ''0123456789abcdef'' 1)
        session0 key0) =
   Inr (1, VerifySignature \<lparr>key_type = KEYTYPE_RSA, data = ''KEY''\<rparr> ''PEER-EPUB'' (Some ''PEER-SIG''),
        ''0123456789abcdef'')"
  by (simp add: run_common run_bare)

text \<open>
  C4 (the code departs from the claim). The claim: the handshake sends the protocol
  line and then the encoded local Propose. In the run that goes through to the end the
  buffers sent are the protocol line and the Exchange, and nothing else; in the run
  that ends at line 353 the protocol line is all that was sent. The local Propose is
  built and never encoded or sent.
\<close>

theorem handshake_sends_no_propose:
  "map_sum id (\<lambda>out. (retVal out, trace out))
     (libp2p_secio_handshake (peer_env bare_response empty_proposal ''0123456789abcdef'' 1)
        session0 key0) =
   Inr (1, [MultistreamSend (''/secio/1.0.0'' @ [NL]),
            MultistreamReceive bare_response,
            EphemeralKeyGenerate None,
            Sign ''EPUB'',
            MultistreamSend ''EXCHANGE:EPUB'',
            MultistreamReceive ''0123456789abcdef'',
            VerifySignature \<lparr>key_type = KEYTYPE_RSA, data = ''KEY''\<rparr>
              ''PEER-EPUB'' (Some ''PEER-SIG'')]) \<and>
   sent (calls (libp2p_secio_handshake
      (peer_env accept_response common_proposal ''0123456789abcdef'' 1) session0 key0)) =
   [''/secio/1.0.0'' @ [NL]]"
  by (simp add: run_common run_bare)





text \<open>
  C10. \<open>libp2p_secio_generate_nonce\<close> never returns anything but 1: whenever the
  device opens and the bytes read fit the buffer it returns 1, however few bytes were
  read, also none. So no run of the handshake leaves at line 311.
\<close>

theorem generate_nonce_always_one:
  "(\<forall>r buf'. libp2p_secio_generate_nonce dev buf len = Inr (r, buf') \<longrightarrow> r = 1) \<and>
   (min (size_t len) (length bs) \<le> length buf \<longrightarrow>
      libp2p_secio_generate_nonce (Some bs) buf len =
        Inr (1, take (min (size_t len) (length bs)) bs @ drop (min (size_t len) (length bs)) buf)) \<and>
   (\<forall>out. libp2p_secio_handshake e s pk = Inr out \<longrightarrow> exit_at out \<noteq> NonceFailed_311)"
proof -
  have "\<forall>out. libp2p_secio_handshake e s pk = Inr out \<longrightarrow> exit_at out \<noteq> NonceFailed_311"
    using handshake_ok by blast
  then show ?thesis
    by (auto simp: libp2p_secio_generate_nonce_def Let_def split: option.splits)
qed

theorem generate_nonce_always_one_witness:
  "libp2p_secio_generate_nonce (Some []) (replicate 16 NUL) 16 = Inr (1, replicate 16 NUL) \<and>
   libp2p_secio_generate_nonce (Some ''0123456789abcdefgh'') (replicate 16 NUL) 16
     = Inr (1, ''0123456789abcdef'') \<and>
   map_sum id exit_at
     (libp2p_secio_handshake (peer_env bare_response empty_proposal ''0123456789abcdef'' 1)
        session0 key0) = Inr Completed_411"
proof -
  have a: "libp2p_secio_generate_nonce (Some []) (replicate 16 NUL) 16 = Inr (1, replicate 16 NUL)"
    using generate_nonce_always_one [of "Some []" "replicate 16 NUL" 16 "[]"]
    by simp
  have b: "libp2p_secio_generate_nonce (Some ''0123456789abcdefgh'') (replicate 16 NUL) 16
     = Inr (1, ''0123456789abcdef'')"
    using generate_nonce_always_one [of "Some ''0123456789abcdefgh''" "replicate 16 NUL" 16
        "''0123456789abcdefgh''"]
    by (simp add: size_t_def)
  from a b run_bare show ?thesis
    by simp
qed

end
